theory Spec2Isabelle
  imports Main
begin

section \<open>JavaScript strings\<close>

text \<open>
  A JavaScript string is a sequence of UTF-16 code units. The model uses \<^typ>\<open>string\<close>,
  whose characters are the code units \<open>0x00\<close> to \<open>0xFF\<close> (ASCII and Latin-1), so
  \<^const>\<open>length\<close> is the \<open>.length\<close> of the source. Content with code units above
  \<open>0xFF\<close> is outside the model.
\<close>

text \<open>
  The class \<open>\s\<close> of a regular expression and the characters removed by \<open>trim()\<close>
  are the same set (WhiteSpace and LineTerminator of ECMAScript); below \<open>0x100\<close> they are
  tab, line feed, vertical tab, form feed, carriage return, space and no-break space.
\<close>

definition isWhiteSpace :: "char \<Rightarrow> bool" where
  "isWhiteSpace c \<longleftrightarrow>
     c \<in> set [CHR 0x09, CHR 0x0A, CHR 0x0B, CHR 0x0C, CHR 0x0D, CHR 0x20, CHR 0xA0]"

text \<open>
  \<open>toLowerCase()\<close>: the letters \<open>A\<close> to \<open>Z\<close> and the Latin-1 capitals \<open>0xC0\<close> to
  \<open>0xDE\<close> (without the multiplication sign \<open>0xD7\<close>) move up by \<open>0x20\<close>; every other
  code unit below \<open>0x100\<close> is its own lower case.
\<close>

definition toLowerChar :: "char \<Rightarrow> char" where
  "toLowerChar c =
     (let n = (of_char c :: nat)
      in if (65 \<le> n \<and> n \<le> 90) \<or> (192 \<le> n \<and> n \<le> 222 \<and> n \<noteq> 215)
         then char_of (n + 32) else c)"

definition toLowerCase :: "string \<Rightarrow> string" where
  "toLowerCase s = map toLowerChar s"

text \<open>
  \<open>toUpperCase()\<close> of a string of one code unit. The small letters \<open>a\<close> to \<open>z\<close> and
  \<open>0xE0\<close> to \<open>0xFE\<close> (without the division sign \<open>0xF7\<close>) move down by \<open>0x20\<close>, and
  the sharp s \<open>0xDF\<close> becomes the two letters \<open>SS\<close>. The upper cases of the micro sign
  \<open>0xB5\<close> and of \<open>0xFF\<close> are \<open>U+039C\<close> and \<open>U+0178\<close>, above \<open>0xFF\<close>: the model
  cannot hold them and leaves these two code units unchanged, so a token that starts with
  one of them is capitalized otherwise than in the source.
\<close>

definition toUpperCase1 :: "char \<Rightarrow> string" where
  "toUpperCase1 c =
     (let n = (of_char c :: nat)
      in if (97 \<le> n \<and> n \<le> 122) \<or> (224 \<le> n \<and> n \<le> 254 \<and> n \<noteq> 247)
         then [char_of (n - 32)]
         else if n = 223 then ''SS'' else [c])"

text \<open>\<open>s.trim()\<close>\<close>

definition trim :: "string \<Rightarrow> string" where
  "trim s = rev (dropWhile isWhiteSpace (rev (dropWhile isWhiteSpace s)))"

text \<open>
  \<open>s.split(/[...]+/)\<close> for a character class \<open>sep\<close>: the string is cut at every maximal
  run of separators. A separator run at the start or at the end leaves an empty string
  there, and a string without separator (the empty string too) is returned whole, so the
  result is never the empty array. Read from the left: a separator that is followed by
  another one is skipped, the last separator of a run opens a new piece, and any other
  character joins the piece that follows it.
\<close>

fun split_re :: "(char \<Rightarrow> bool) \<Rightarrow> string \<Rightarrow> string list" where
  "split_re sep [] = [[]]"
| "split_re sep (c # cs) =
     (if sep c then
        (if cs \<noteq> [] \<and> sep (hd cs) then split_re sep cs else [] # split_re sep cs)
      else
        (case split_re sep cs of
           [] \<Rightarrow> [[c]]
         | t # ts \<Rightarrow> (c # t) # ts))"

text \<open>JavaScript truthiness of a string, as in \<open>a || b\<close>: the empty string is falsy.\<close>

definition or_else :: "string \<Rightarrow> string \<Rightarrow> string" where
  "or_else a b = (if a \<noteq> [] then a else b)"

text \<open>
  The names that every object literal inherits from \<open>Object.prototype\<close>. A lookup
  \<open>obj[key]\<close> with one of them as key does not give \<open>undefined\<close> but the inherited
  function (for \<open>__proto__\<close> the prototype object itself), which is truthy and is not a
  number.
\<close>

definition inheritedFunctions :: "string list" where
  "inheritedFunctions =
     [''constructor'', ''__defineGetter__'', ''__defineSetter__'', ''hasOwnProperty'',
      ''__lookupGetter__'', ''__lookupSetter__'', ''isPrototypeOf'',
      ''propertyIsEnumerable'', ''toString'', ''valueOf'', ''toLocaleString'']"

definition inherited :: "string \<Rightarrow> bool" where
  "inherited k \<longleftrightarrow> k = ''__proto__'' \<or> k \<in> set inheritedFunctions"

section \<open>The fallback synthesizer: \<open>generateFallbackScript\<close>\<close>

record PodcastScriptOptions =
  content :: string
  style :: string
  duration :: string
  showName :: "string option"

subsection \<open>Tokens\<close>

text \<open>\<open>const words = content.toLowerCase().split(/\s+/)\<close>\<close>

definition words :: "string \<Rightarrow> string list" where
  "words c = split_re isWhiteSpace (toLowerCase c)"

subsection \<open>Category inference\<close>

definition technologyKeywords :: "string list" where
  "technologyKeywords = [''technology'', ''tech'', ''ai'', ''digital'', ''software'']"

definition businessKeywords :: "string list" where
  "businessKeywords = [''business'', ''market'', ''company'', ''finance'', ''economy'']"

definition healthKeywords :: "string list" where
  "healthKeywords = [''health'', ''medical'', ''wellness'', ''fitness'', ''nutrition'']"

definition educationKeywords :: "string list" where
  "educationKeywords = [''education'', ''learning'', ''school'', ''university'', ''study'']"

definition scienceKeywords :: "string list" where
  "scienceKeywords = [''science'', ''research'', ''study'', ''discovery'', ''experiment'']"

text \<open>\<open>words.some(w => kws.includes(w))\<close>\<close>

definition some_includes :: "string list \<Rightarrow> string list \<Rightarrow> bool" where
  "some_includes ws kws = list_ex (\<lambda>w. w \<in> set kws) ws"

text \<open>
  \<open>let category = "General"\<close> followed by five \<open>if\<close> statements without \<open>else\<close>:
  each one that fires overwrites the variable.
\<close>

definition inferCategory :: "string list \<Rightarrow> string" where
  "inferCategory ws =
     (let category = ''General'';
          category = (if some_includes ws technologyKeywords then ''Technology'' else category);
          category = (if some_includes ws businessKeywords then ''Business'' else category);
          category = (if some_includes ws healthKeywords then ''Health'' else category);
          category = (if some_includes ws educationKeywords then ''Education'' else category);
          category = (if some_includes ws scienceKeywords then ''Science'' else category)
      in category)"

subsection \<open>Sentences\<close>

definition isSentenceEnd :: "char \<Rightarrow> bool" where
  "isSentenceEnd c \<longleftrightarrow> c \<in> set ''.!?''"

text \<open>\<open>content.split(/[.!?]+/).filter(s => s.trim().length > 10)\<close>\<close>

definition sentences :: "string \<Rightarrow> string list" where
  "sentences c = filter (\<lambda>s. length (trim s) > 10) (split_re isSentenceEnd c)"

text \<open>\<open>sentences[0]?.trim() || "Welcome to today's discussion."\<close>\<close>

definition firstSentence :: "string list \<Rightarrow> string" where
  "firstSentence ss =
     (case ss of
        [] \<Rightarrow> ''Welcome to today's discussion.''
      | s # _ \<Rightarrow> or_else (trim s) ''Welcome to today's discussion.'')"

subsection \<open>Key topics\<close>

definition stopWords :: "string list" where
  "stopWords =
     [''the'', ''a'', ''an'', ''and'', ''or'', ''but'', ''in'', ''on'', ''at'', ''to'',
      ''for'', ''of'', ''with'', ''by'', ''is'', ''are'', ''was'', ''were'', ''be'',
      ''been'', ''have'', ''has'', ''had'', ''do'', ''does'', ''did'', ''will'', ''would'',
      ''could'', ''should'', ''may'', ''might'', ''can'', ''this'', ''that'', ''these'',
      ''those'', ''i'', ''you'', ''he'', ''she'', ''it'', ''we'', ''they'', ''me'', ''him'',
      ''her'', ''us'', ''them'']"

text \<open>\<open>words.filter(w => w.length > 4 && !stopWords.has(w))\<close>\<close>

definition meaningfulWords :: "string list \<Rightarrow> string list" where
  "meaningfulWords ws = filter (\<lambda>w. length w > 4 \<and> w \<notin> set stopWords) ws"

text \<open>
  The accumulator of the \<open>reduce\<close> is an object literal \<open>{}\<close> used as a dictionary.
  Its type annotation says \<open>Record<string, number>\<close>, but at run time a property holds
  whatever \<open>(acc[word] || 0) + 1\<close> evaluates to: a number, or a string when \<open>acc[word]\<close>
  was an inherited function or object, since \<open>+\<close> then concatenates.
\<close>

datatype jsval = Num nat | Str string

text \<open>
  The own properties of the object, in the order in which \<open>Object.entries\<close> lists them:
  first the keys that are array indices, in ascending numeric order, then every other key
  in the order of its creation.
\<close>

type_synonym jsobject = "(string \<times> jsval) list"

definition isDigit :: "char \<Rightarrow> bool" where
  "isDigit c \<longleftrightarrow> c \<in> set ''0123456789''"

definition digitValue :: "char \<Rightarrow> int" where
  "digitValue c = of_char c - 48"

definition parseDecimal :: "string \<Rightarrow> int" where
  "parseDecimal s = foldl (\<lambda>n c. 10 * n + digitValue c) 0 s"

text \<open>
  An array index is the canonical decimal form of an integer from \<open>0\<close> to \<open>2\<^sup>3\<^sup>2 - 2\<close>:
  digits only, no leading zero.
\<close>

definition isArrayIndex :: "string \<Rightarrow> bool" where
  "isArrayIndex k \<longleftrightarrow>
     k \<noteq> [] \<and> list_all isDigit k \<and> (k = ''0'' \<or> hd k \<noteq> CHR ''0'') \<and>
     parseDecimal k < 4294967295"

text \<open>What \<open>acc[word]\<close> finds: an own property, or else what the prototype provides.\<close>

datatype lookup = Undefined | Own jsval | InheritedFunction string | PrototypeObject

definition obj_get :: "jsobject \<Rightarrow> string \<Rightarrow> lookup" where
  "obj_get acc k =
     (case map_of acc k of
        Some v \<Rightarrow> Own v
      | None \<Rightarrow>
          if k = ''__proto__'' then PrototypeObject
          else if k \<in> set inheritedFunctions then InheritedFunction k
          else Undefined)"

text \<open>
  \<open>(acc[word] || 0) + 1\<close>. A function converts to the string of its source text, which
  for a built-in is \<open>function NAME() { [native code] }\<close>; the name of the function stored
  under \<open>constructor\<close> is \<open>Object\<close>.
\<close>

definition functionName :: "string \<Rightarrow> string" where
  "functionName k = (if k = ''constructor'' then ''Object'' else k)"

fun plus_one :: "lookup \<Rightarrow> jsval" where
  "plus_one Undefined = Num 1"
| "plus_one (Own (Num n)) = Num (n + 1)"
| "plus_one (Own (Str s)) = (if s = [] then Num 1 else Str (s @ ''1''))"
| "plus_one (InheritedFunction k) =
     Str (''function '' @ functionName k @ ''() { [native code] }'' @ ''1'')"
| "plus_one PrototypeObject = Str (''[object Object]'' @ ''1'')"

text \<open>
  \<open>acc[word] = v\<close>. An existing own property keeps its place. A new array index goes
  among the array indices at the front, in numeric order; any other new key goes to the
  end. Assigning a primitive value to \<open>__proto__\<close> calls the inherited setter, which
  ignores it: no property is created.
\<close>

fun insert_index :: "string \<Rightarrow> jsval \<Rightarrow> jsobject \<Rightarrow> jsobject" where
  "insert_index k v [] = [(k, v)]"
| "insert_index k v ((k', v') # rest) =
     (if isArrayIndex k' \<and> parseDecimal k' < parseDecimal k
      then (k', v') # insert_index k v rest
      else (k, v) # (k', v') # rest)"

definition obj_set :: "jsobject \<Rightarrow> string \<Rightarrow> jsval \<Rightarrow> jsobject" where
  "obj_set acc k v =
     (if k = ''__proto__'' then acc
      else if k \<in> fst ` set acc then map (\<lambda>(k', v'). if k' = k then (k', v) else (k', v')) acc
      else if isArrayIndex k then insert_index k v acc
      else acc @ [(k, v)])"

text \<open>\<open>meaningfulWords.reduce((acc, word) => { acc[word] = (acc[word] || 0) + 1; return acc; }, {})\<close>\<close>

definition wordFreq :: "string list \<Rightarrow> jsobject" where
  "wordFreq ms = foldl (\<lambda>acc word. obj_set acc word (plus_one (obj_get acc word))) [] ms"

text \<open>
  The comparator \<open>([,a], [,b]) => b - a\<close>. Subtraction converts a string to a number;
  the strings that \<^const>\<open>plus_one\<close> builds are no numerals, so the difference is \<open>NaN\<close>,
  which \<open>sort\<close> takes as \<open>0\<close>.
\<close>

fun compareEntries :: "string \<times> jsval \<Rightarrow> string \<times> jsval \<Rightarrow> int" where
  "compareEntries (_, Num a) (_, Num b) = int b - int a"
| "compareEntries _ _ = 0"

text \<open>
  \<open>Array.prototype.sort\<close> is stable. With a comparator that is a consistent ordering the
  result is determined, and the stable insertion sort below computes it. With
  \<open>constructor\<close> among the keys the comparator is not consistent (the string compares
  equal to every number), and ECMAScript leaves the order to the implementation. The model
  then gives the order of the insertion sort, which is not the order of every engine;
  nothing below that speaks of an order relies on it for such content.
\<close>

fun insert_by :: "('a \<Rightarrow> 'a \<Rightarrow> int) \<Rightarrow> 'a \<Rightarrow> 'a list \<Rightarrow> 'a list" where
  "insert_by cmp x [] = [x]"
| "insert_by cmp x (y # ys) = (if cmp x y \<le> 0 then x # y # ys else y # insert_by cmp x ys)"

definition sort_by :: "('a \<Rightarrow> 'a \<Rightarrow> int) \<Rightarrow> 'a list \<Rightarrow> 'a list" where
  "sort_by cmp xs = foldr (insert_by cmp) xs []"

text \<open>\<open>word.charAt(0).toUpperCase() + word.slice(1)\<close>\<close>

definition capitalize :: "string \<Rightarrow> string" where
  "capitalize w = (case w of [] \<Rightarrow> [] | c # cs \<Rightarrow> toUpperCase1 c @ cs)"

text \<open>\<open>Object.entries(wordFreq).sort(...).slice(0, 5).map(([word]) => ...)\<close>\<close>

definition keyTopics_of :: "string list \<Rightarrow> string list" where
  "keyTopics_of ws =
     map (\<lambda>(word, _). capitalize word)
       (take 5 (sort_by compareEntries (wordFreq (meaningfulWords ws))))"

subsection \<open>Style\<close>

record StyleFormat =
  introTone :: string
  transitionPhrase :: string
  hostVoice :: string

definition styleFormats :: "(string \<times> StyleFormat) list" where
  "styleFormats =
     [(''conversational'',
         \<lparr>introTone = ''friendly and welcoming'',
          transitionPhrase = ''So let's dive in'',
          hostVoice = ''casual and engaging''\<rparr>),
      (''professional'',
         \<lparr>introTone = ''authoritative and polished'',
          transitionPhrase = ''Let's examine this in detail'',
          hostVoice = ''professional and informative''\<rparr>),
      (''educational'',
         \<lparr>introTone = ''knowledgeable and approachable'',
          transitionPhrase = ''Today we'll learn about'',
          hostVoice = ''educational and clear''\<rparr>),
      (''interview'',
         \<lparr>introTone = ''curious and engaging'',
          transitionPhrase = ''Our guest today brings unique insights'',
          hostVoice = ''inquisitive and thoughtful''\<rparr>)]"

text \<open>
  \<open>const format = styleFormats[style] || styleFormats.conversational\<close>, of which only
  \<open>format.transitionPhrase\<close> is read. For a style that names an inherited property,
  \<open>format\<close> is that function or object; it has no \<open>transitionPhrase\<close>, and the template
  prints \<open>undefined\<close>.
\<close>

definition format_transitionPhrase :: "string \<Rightarrow> string" where
  "format_transitionPhrase st =
     (case map_of styleFormats st of
        Some f \<Rightarrow> transitionPhrase f
      | None \<Rightarrow>
          if inherited st then ''undefined''
          else (case map_of styleFormats ''conversational'' of
                  Some f \<Rightarrow> transitionPhrase f
                | None \<Rightarrow> ''undefined''))"

subsection \<open>Templates\<close>

text \<open>\<open>xs.slice(a, b)\<close> for \<open>0 \<le> a\<close> and \<open>0 \<le> b\<close>\<close>

definition slice :: "nat \<Rightarrow> nat \<Rightarrow> 'a list \<Rightarrow> 'a list" where
  "slice a b xs = take (b - a) (drop a xs)"

text \<open>\<open>xs[i] || placeholder\<close>: an index out of range gives \<open>undefined\<close>.\<close>

definition item_or :: "string list \<Rightarrow> nat \<Rightarrow> string \<Rightarrow> string" where
  "item_or xs i placeholder = (if i < length xs then or_else (xs ! i) placeholder else placeholder)"

text \<open>\<open>xs.join(sep)\<close>\<close>

fun join :: "string \<Rightarrow> string list \<Rightarrow> string" where
  "join sep [] = []"
| "join sep [x] = x"
| "join sep (x # y # ys) = x @ sep @ join sep (y # ys)"

text \<open>The decimal numeral of a natural number, as a template prints it.\<close>

fun decimal :: "nat \<Rightarrow> string" where
  "decimal n =
     (if n < 10 then [char_of (48 + n)]
      else decimal (n div 10) @ [char_of (48 + n mod 10)])"

declare decimal.simps [simp del]

definition intro_of :: "string \<Rightarrow> string \<Rightarrow> string \<Rightarrow> string" where
  "intro_of name hook phrase =
     ''[INTRO MUSIC FADES IN]\<newline>\<newline>Welcome to '' @ name @
     ''! I'm your host, and today we're diving into a fascinating topic that's sure to capture your attention.\<newline>\<newline>[MUSIC FADES TO BACKGROUND]\<newline>\<newline>'' @
     hook @
     '' This is exactly the kind of story that deserves our attention, and I'm excited to break it down for you in today's episode.\<newline>\<newline>[MUSIC FADES OUT]\<newline>\<newline>'' @
     phrase @
     '', and explore what this means for all of us. Grab your coffee, settle in, and let's get started.''"

text \<open>\<open>const contentChunks = sentences.slice(1, Math.min(sentences.length, 8))\<close>\<close>

definition contentChunks :: "string list \<Rightarrow> string list" where
  "contentChunks ss = slice 1 (min (length ss) 8) ss"

definition implications :: "string list \<Rightarrow> string" where
  "implications chunks =
     join ''\<newline>\<newline>''
       (map (\<lambda>(i, chunk). decimal (i + 1) @ ''. '' @
               or_else chunk ''This aspect requires careful consideration of multiple factors.'')
          (enumerate 0 (slice 3 6 chunks)))"

definition mainContent_of :: "string list \<Rightarrow> string" where
  "mainContent_of chunks =
     ''Now, let me walk you through the key points of this story.\<newline>\<newline>[TRANSITION MUSIC - 3 SECONDS]\<newline>\<newline>First, let's establish the context. '' @
     item_or chunks 0 ''We're looking at a development that has significant implications.'' @
     ''\<newline>\<newline>'' @
     item_or chunks 1 ''The details are quite compelling when you examine them closely.'' @
     '' This brings us to an important consideration that affects how we should interpret these findings.\<newline>\<newline>[TRANSITION MUSIC - 3 SECONDS]\<newline>\<newline>What's particularly interesting is how this connects to broader trends we've been seeing. '' @
     item_or chunks 2 ''The patterns are becoming clearer as more information emerges.'' @
     ''\<newline>\<newline>Let me break down the key implications:\<newline>\<newline>'' @
     implications chunks @
     ''\<newline>\<newline>[TRANSITION MUSIC - 3 SECONDS]\<newline>\<newline>Now, you might be wondering what this means for the future. '' @
     item_or chunks 6 ''The trajectory suggests several possible outcomes that are worth monitoring.'' @
     '' \<newline>\<newline>This is where things get really interesting, and why I wanted to share this story with you today.''"

definition outro_of :: "string \<Rightarrow> string list \<Rightarrow> string" where
  "outro_of name topics =
     ''[OUTRO MUSIC FADES IN]\<newline>\<newline>So, what's the takeaway from all of this? I think the key insight is that '' @
     item_or topics 0 ''this topic'' @
     '' continues to evolve in ways that demand our attention.\<newline>\<newline>As we wrap up today's episode, I encourage you to think about how this might impact your own perspective on '' @
     item_or topics 1 ''related matters'' @
     ''.\<newline>\<newline>[MUSIC BUILDS]\<newline>\<newline>Thanks for joining me on '' @ name @
     ''. If you enjoyed today's discussion, don't forget to subscribe and share this episode with friends who might find it interesting.\<newline>\<newline>Next time, we'll be exploring another compelling story, so make sure you're subscribed so you don't miss it.\<newline>\<newline>Until then, keep questioning, keep learning, and I'll see you in the next episode.\<newline>\<newline>[OUTRO MUSIC FADES OUT]''"

subsection \<open>Timestamps\<close>

record Timestamp =
  time :: string
  topic :: string

text \<open>
  The route parses the request with the schema of \<open>shared/schema.ts\<close> before it calls the
  facade, and the schema admits these values of \<open>targetDuration\<close> only:
  \<open>z.enum(["5-10", "10-20", "20-30", "30+"])\<close>.
\<close>

definition targetDurations :: "string list" where
  "targetDurations = [''5-10'', ''10-20'', ''20-30'', ''30+'']"

definition durationMap :: "(string \<times> nat) list" where
  "durationMap = [(''5-10'', 8), (''10-20'', 15), (''20-30'', 25), (''30+'', 35)]"

text \<open>
  \<open>const estimatedDuration = durationMap[duration] || 15\<close>. The result is a number of
  minutes, or \<^const>\<open>None\<close> when \<open>duration\<close> names an inherited property: then the
  lookup yields a function or object, \<open>||\<close> keeps it, and all arithmetic on it is \<open>NaN\<close>.
\<close>

definition estimatedDuration :: "string \<Rightarrow> nat option" where
  "estimatedDuration d =
     (case map_of durationMap d of
        Some n \<Rightarrow> Some (if n = 0 then 15 else n)
      | None \<Rightarrow> if inherited d then None else Some 15)"

text \<open>
  \<open>`${x}:00`\<close> for a number or \<open>NaN\<close>. The estimates are 8, 15, 25 and 35, and for
  these the products with \<open>0.2\<close>, \<open>0.5\<close> and \<open>0.8\<close> in double precision have the integer
  parts of the exact products (1, 4, 6; 3, 7, 12; 5, 12, 20; 7, 17, 28), so
  \<open>Math.floor\<close> of them is the integer quotient; none is below 2, so \<open>estimatedDuration - 2\<close>
  is not negative.
\<close>

definition minutes_label :: "nat option \<Rightarrow> string" where
  "minutes_label m = (case m of None \<Rightarrow> ''NaN'' | Some n \<Rightarrow> decimal n) @ '':00''"

definition timestamps_of :: "string \<Rightarrow> Timestamp list" where
  "timestamps_of d =
     (let e = estimatedDuration d
      in [\<lparr>time = ''0:00'', topic = ''Introduction''\<rparr>,
          \<lparr>time = ''1:30'', topic = ''Topic Overview''\<rparr>,
          \<lparr>time = minutes_label (map_option (\<lambda>n. n div 5) e), topic = ''Key Points Analysis''\<rparr>,
          \<lparr>time = minutes_label (map_option (\<lambda>n. n div 2) e), topic = ''Main Discussion''\<rparr>,
          \<lparr>time = minutes_label (map_option (\<lambda>n. 4 * n div 5) e),
           topic = ''Implications & Takeaways''\<rparr>,
          \<lparr>time = minutes_label (map_option (\<lambda>n. n - 2) e),
           topic = ''Wrap-up & Next Episode''\<rparr>])"

subsection \<open>The result\<close>

record EpisodeDetails =
  duration_ed :: string
  category :: string
  season :: "string option"
  episode :: "string option"
  format :: string

record ShowNotes =
  keyTopics :: "string list"
  resources :: "string list"
  timestamps :: "Timestamp list"
  episodeDetails :: EpisodeDetails

record GeneratedScript =
  intro :: string
  mainContent :: string
  outro :: string
  showNotes :: ShowNotes

text \<open>
  The destructuring default \<open>showName = "The Show"\<close> applies when the property is
  \<open>undefined\<close>, and only then. \<open>duration.replace('+', '')\<close> removes the first \<open>+\<close>.
\<close>

definition generateFallbackScript :: "'a PodcastScriptOptions_scheme \<Rightarrow> GeneratedScript" where
  "generateFallbackScript options =
     (let showName = (case showName options of None \<Rightarrow> ''The Show'' | Some s \<Rightarrow> s);
          words = words (content options);
          sentences = sentences (content options);
          firstSentence = firstSentence sentences;
          category = inferCategory words;
          keyTopics = keyTopics_of words
      in \<lparr>intro = intro_of showName firstSentence (format_transitionPhrase (style options)),
          mainContent = mainContent_of (contentChunks sentences),
          outro = outro_of showName keyTopics,
          showNotes =
            \<lparr>keyTopics =
               (if length keyTopics > 0 then keyTopics
                else [''Analysis'', ''Discussion'', ''Insights'']),
             resources =
               [''Episode transcript available on our website'',
                ''Follow us on social media for updates'',
                ''Submit topic suggestions via our contact form''],
             timestamps = timestamps_of (duration options),
             episodeDetails =
               \<lparr>duration_ed = ''~'' @ remove1 (CHR ''+'') (duration options) @ '' minutes'',
                category = category,
                season = None,
                episode = None,
                format =
                  (if style options = ''interview'' then ''Interview Style''
                   else ''Solo Commentary'')\<rparr>\<rparr>\<rparr>)"

section \<open>The script generation facade: \<open>generatePodcastScript\<close>\<close>

text \<open>
  A thrown value: an \<open>Error\<close> with its message, or a value that is no instance of
  \<open>Error\<close>. A promise that rejects is a result \<^term>\<open>Inl e\<close>.
\<close>

datatype error = Error string | NonError

text \<open>\<open>error instanceof Error ? error.message : "Unknown error"\<close>\<close>

definition message_of :: "error \<Rightarrow> string" where
  "message_of e = (case e of Error m \<Rightarrow> m | NonError \<Rightarrow> ''Unknown error'')"

definition systemPrompt :: "'a PodcastScriptOptions_scheme \<Rightarrow> string" where
  \<open>systemPrompt options =
     ''You are a professional podcast script writer. Create an engaging, well-structured podcast script based on the provided content. \<newline>'' @
     ''\<newline>'' @
     ''Style: '' @
     style options @
     ''\<newline>'' @
     ''Target Duration: '' @
     duration options @
     '' minutes\<newline>'' @
     ''Show Name: '' @
     (case showName options of None \<Rightarrow> ''The Show'' | Some s \<Rightarrow> or_else s ''The Show'') @
     ''\<newline>'' @
     ''\<newline>'' @
     ''The script should include:\<newline>'' @
     ''1. A compelling intro that hooks the audience\<newline>'' @
     ''2. Well-structured main content with natural transitions\<newline>'' @
     ''3. A strong outro with call-to-action\<newline>'' @
     ''4. Comprehensive show notes\<newline>'' @
     ''\<newline>'' @
     ''Format the response as JSON with this exact structure:\<newline>'' @
     ''{\<newline>'' @
     ''  "intro": "Complete intro segment with host dialogue and music cues",\<newline>'' @
     ''  "mainContent": "Main content with segments and transitions",\<newline>'' @
     ''  "outro": "Outro segment with wrap-up and next episode teaser",\<newline>'' @
     ''  "showNotes": {\<newline>'' @
     ''    "keyTopics": ["topic1", "topic2"],\<newline>'' @
     ''    "resources": ["resource1", "resource2"],\<newline>'' @
     ''    "timestamps": [{"time": "0:00", "topic": "Introduction"}],\<newline>'' @
     ''    "episodeDetails": {\<newline>'' @
     ''      "duration": "~20 minutes",\<newline>'' @
     ''      "category": "Technology",\<newline>'' @
     ''      "format": "Solo Commentary"\<newline>'' @
     ''    }\<newline>'' @
     ''  }\<newline>'' @
     ''}\<newline>'' @
     ''\<newline>'' @
     ''Make the script conversational, engaging, and professional. Include music cues like [INTRO MUSIC FADES IN] and [TRANSITION MUSIC]. Ensure natural flow between segments.''\<close>

text \<open>
  The request to the model. The response schema of the source is a constant and is not
  part of the record.
\<close>

record GenerateContentRequest =
  model :: string
  systemInstruction :: string
  contents :: string

text \<open>
  The two external collaborators are parameters: \<open>ai.models.generateContent\<close>, which
  throws or returns a response whose \<open>text\<close> is a string or \<open>undefined\<close>, and
  \<open>JSON.parse\<close>, which throws or returns the parsed value. The source takes that value as
  a \<open>GeneratedScript\<close> by type annotation, without a check.
\<close>

type_synonym generateContent = "GenerateContentRequest \<Rightarrow> error + string option"

type_synonym jsonParse = "string \<Rightarrow> error + GeneratedScript"

text \<open>The body of the \<open>try\<close> block, the same in both files.\<close>

definition tryGenerate ::
  "generateContent \<Rightarrow> jsonParse \<Rightarrow> 'a PodcastScriptOptions_scheme \<Rightarrow> error + GeneratedScript"
where
  "tryGenerate ai parse options =
     (case ai \<lparr>model = ''gemini-2.5-pro'', systemInstruction = systemPrompt options,
                contents = content options\<rparr> of
        Inl e \<Rightarrow> Inl e
      | Inr rawJson \<Rightarrow>
          (case rawJson of
             None \<Rightarrow> Inl (Error ''Empty response from Gemini API'')
           | Some raw \<Rightarrow>
               if raw = [] then Inl (Error ''Empty response from Gemini API'')
               else parse raw))"

text \<open>
  \<open>generatePodcastScript\<close> of the file with the fallback synthesizer: the \<open>catch\<close> block
  returns \<open>generateFallbackScript(options)\<close>.
\<close>

definition generatePodcastScript ::
  "generateContent \<Rightarrow> jsonParse \<Rightarrow> 'a PodcastScriptOptions_scheme \<Rightarrow> error + GeneratedScript"
where
  "generatePodcastScript ai parse options =
     (case tryGenerate ai parse options of
        Inr script \<Rightarrow> Inr script
      | Inl e \<Rightarrow> Inr (generateFallbackScript options))"

text \<open>
  \<open>generatePodcastScript\<close> of \<open>server/services/gemini.ts\<close>, the module that the routes
  import: the \<open>catch\<close> block throws a new \<open>Error\<close>.
\<close>

definition generatePodcastScript_services ::
  "generateContent \<Rightarrow> jsonParse \<Rightarrow> 'a PodcastScriptOptions_scheme \<Rightarrow> error + GeneratedScript"
where
  "generatePodcastScript_services ai parse options =
     (case tryGenerate ai parse options of
        Inr script \<Rightarrow> Inr script
      | Inl e \<Rightarrow> Inl (Error (''Failed to generate podcast script: '' @ message_of e)))"

section \<open>The content extractor: \<open>fetchContentFromUrl\<close>\<close>

record FetchedContent =
  title :: string
  content_fc :: string
  wordCount :: nat

text \<open>
  What the code reads of the \<open>fetch\<close> response; \<open>await response.text()\<close> yields the
  body or throws.
\<close>

record Response =
  ok :: bool
  status :: nat
  statusText :: string
  text_body :: "error + string"

text \<open>
  What the code reads of the parsed page, after the \<open>remove()\<close> of the script, style,
  navigation, footer and sidebar elements: \<open>$(sel).length\<close>, \<open>$(sel).text()\<close> and
  \<open>$('h1').first().text()\<close>. The HTML parser is a parameter that yields these.
\<close>

record Document =
  length_of :: "string \<Rightarrow> nat"
  text_of :: "string \<Rightarrow> string"
  h1_first_text :: string

definition contentSelectors :: "string list" where
  "contentSelectors =
     [''article'', ''main'', ''.content'', ''.article-content'', ''.post-content'',
      ''.entry-content'', ''#content'', ''.story-body'', ''.article-body'']"

text \<open>The loop over the selectors: the first hit ends it; without a hit \<open>content\<close> stays \<open>''\<close>.\<close>

fun firstContent :: "'a Document_scheme \<Rightarrow> string list \<Rightarrow> string" where
  "firstContent d [] = []"
| "firstContent d (selector # rest) =
     (if length_of d selector \<noteq> 0 \<and> length (trim (text_of d selector)) > 100
      then trim (text_of d selector)
      else firstContent d rest)"

text \<open>
  \<open>s.replace(/\s+/g, ' ')\<close>: every maximal run of white space becomes one space (put
  where the run ends).
\<close>

fun collapse_ws :: "string \<Rightarrow> string" where
  "collapse_ws [] = []"
| "collapse_ws (c # cs) =
     (if isWhiteSpace c then
        (if cs \<noteq> [] \<and> isWhiteSpace (hd cs) then collapse_ws cs
         else CHR '' '' # collapse_ws cs)
      else c # collapse_ws cs)"

text \<open>
  \<open>s.replace(/\n\s*\n/g, '\n\n')\<close>: at a line feed, the white space that follows is
  matched up to its last line feed, if it has one, and the match becomes two line feeds;
  the scan goes on behind the match.
\<close>

fun blank_lines :: "string \<Rightarrow> string" where
  "blank_lines [] = []"
| "blank_lines (c # cs) =
     (if c = CHR 0x0A \<and> CHR 0x0A \<in> set (takeWhile isWhiteSpace cs)
      then CHR 0x0A # CHR 0x0A #
           blank_lines
             (drop (length (takeWhile isWhiteSpace cs) -
                    length (takeWhile (\<lambda>d. d \<noteq> CHR 0x0A) (rev (takeWhile isWhiteSpace cs)))) cs)
      else c # blank_lines cs)"

definition cleanContent :: "string \<Rightarrow> string" where
  "cleanContent c = trim (blank_lines (collapse_ws c))"

definition selectContent :: "'a Document_scheme \<Rightarrow> string" where
  "selectContent d =
     (let c = firstContent d contentSelectors
      in if c = [] then trim (text_of d ''body'') else c)"

text \<open>\<open>$('title').text() || $('h1').first().text() || 'Untitled Article'\<close>\<close>

definition extractTitle :: "'a Document_scheme \<Rightarrow> string" where
  "extractTitle d = or_else (text_of d ''title'') (or_else (h1_first_text d) ''Untitled Article'')"

text \<open>The part of the \<open>try\<close> block that works on the parsed page.\<close>

definition extractContent :: "'a Document_scheme \<Rightarrow> error + FetchedContent" where
  "extractContent d =
     (let title = extractTitle d;
          c = cleanContent (selectContent d)
      in if length c < 50 then Inl (Error ''Could not extract meaningful content from the URL'')
         else Inr \<lparr>title = trim title, content_fc = c,
                    wordCount = length (split_re isWhiteSpace (trim c))\<rparr>)"

text \<open>
  \<open>fetch\<close> (which throws on a transport failure) and the HTML parser are parameters. The
  \<open>catch\<close> block wraps every error of the \<open>try\<close> block in a new \<open>Error\<close>.
\<close>

definition fetchContentFromUrl ::
  "(string \<Rightarrow> error + Response) \<Rightarrow> (string \<Rightarrow> Document) \<Rightarrow> string \<Rightarrow> error + FetchedContent"
where
  "fetchContentFromUrl fetch load url =
     (case (case fetch url of
              Inl e \<Rightarrow> Inl e
            | Inr response \<Rightarrow>
                if \<not> ok response
                then Inl (Error (''Failed to fetch content: '' @ decimal (status response) @
                                 '' '' @ statusText response))
                else (case text_body response of
                        Inl e \<Rightarrow> Inl e
                      | Inr html \<Rightarrow> extractContent (load html))) of
        Inl e \<Rightarrow> Inl (Error (''Failed to fetch content from URL: '' @ message_of e))
      | Inr fetched \<Rightarrow> Inr fetched)"

section \<open>Reference definitions\<close>

text \<open>
  Key-topic extraction as the specification words it: the tokens outside the stop-word
  set that are longer than four characters, each once, in the order of their first
  occurrence; ranked by descending frequency with equal frequencies left in that order
  (\<^const>\<open>sort_key\<close> is a stable insertion sort); the first five, capitalized.
\<close>

fun first_seen :: "'a list \<Rightarrow> 'a list" where
  "first_seen [] = []"
| "first_seen (x # xs) = x # filter (\<lambda>y. y \<noteq> x) (first_seen xs)"

definition keyTopics_spec :: "string list \<Rightarrow> string list" where
  "keyTopics_spec ws =
     (let ms = filter (\<lambda>w. w \<notin> set stopWords \<and> \<not> length w \<le> 4) ws
      in map capitalize (take 5 (sort_key (\<lambda>w. - int (count_list ms w)) (first_seen ms))))"

text \<open>
  The same with the order in which an object lists its keys in place of the order of first
  occurrence: the tokens that are array indices first, by ascending number, then the
  other tokens by first occurrence.
\<close>

definition property_order :: "string list \<Rightarrow> string list" where
  "property_order ms =
     sort_key parseDecimal (first_seen (filter isArrayIndex ms)) @
     first_seen (filter (\<lambda>w. \<not> isArrayIndex w) ms)"

definition keyTopics_by_property_order :: "string list \<Rightarrow> string list" where
  "keyTopics_by_property_order ws =
     (let ms = filter (\<lambda>w. w \<notin> set stopWords \<and> \<not> length w \<le> 4) ws
      in map capitalize
           (take 5 (sort_key (\<lambda>w. - int (count_list ms w)) (property_order ms))))"

text \<open>
  The tokens of a string that white space delimits: its maximal runs of characters that
  are not white space.
\<close>

fun ws_tokens :: "string \<Rightarrow> string list" where
  "ws_tokens [] = []"
| "ws_tokens (c # cs) =
     (if isWhiteSpace c then ws_tokens cs
      else if cs = [] \<or> isWhiteSpace (hd cs) then [c] # ws_tokens cs
      else (case ws_tokens cs of [] \<Rightarrow> [[c]] | t # ts \<Rightarrow> (c # t) # ts))"


section \<open>Example inputs\<close>

text \<open>
  A page whose body holds one sentence of 70 characters, the same page with a title of one
  space, a page with 13 characters of text, a successful response, and a request for a
  script.
\<close>

definition examplePage :: Document where
  "examplePage =
     \<lparr>length_of = (\<lambda>sel. if sel = ''title'' \<or> sel = ''body'' then 1 else 0),
      text_of = (\<lambda>sel.
        if sel = ''title'' then ''Example''
        else if sel = ''body''
        then ''  The quick brown fox jumps over the lazy dog near the river bank today.  ''
        else []),
      h1_first_text = []\<rparr>"

definition blankTitlePage :: Document where
  "blankTitlePage = examplePage\<lparr>text_of := (\<lambda>sel. if sel = ''title'' then '' '' else text_of examplePage sel)\<rparr>"

definition shortPage :: Document where
  "shortPage = examplePage\<lparr>text_of := (\<lambda>sel. if sel = ''title'' then ''Example'' else ''Nothing here.'')\<rparr>"

definition okResponse :: Response where
  "okResponse = \<lparr>ok = True, status = 200, statusText = ''OK'', text_body = Inr ''<html></html>''\<rparr>"

definition exampleOptions :: PodcastScriptOptions where
  "exampleOptions =
     \<lparr>content = ''welcome everyone'', style = ''conversational'', duration = ''10-20'',
      showName = None\<rparr>"

section \<open>Facts about the string functions\<close>

lemma rev_dropWhile_takeWhile:
  "rev (dropWhile P xs) @ rev (takeWhile P xs) = rev xs"
  by (simp flip: rev_append)

lemma trim_decompose:
  "dropWhile isWhiteSpace s = trim s @ rev (takeWhile isWhiteSpace (rev (dropWhile isWhiteSpace s)))"
  using rev_dropWhile_takeWhile [of isWhiteSpace "rev (dropWhile isWhiteSpace s)"]
  by (simp add: trim_def)

lemma trim_hd: 
  assumes "trim s \<noteq> []" shows "\<not> isWhiteSpace (hd (trim s))"
proof -
  let ?t = "dropWhile isWhiteSpace s"
  have t: "?t \<noteq> []"
  proof
    assume a: "?t = []"
    have "trim s = []" unfolding trim_def a by simp
    with assms show False by simp
  qed
  then have "\<not> isWhiteSpace (hd ?t)" by (rule hd_dropWhile)
  moreover have "hd ?t = hd (trim s)"
    using assms trim_decompose [of s] hd_append2 [of "trim s"] by metis
  ultimately show ?thesis by simp
qed

lemma trim_last:
  assumes "trim s \<noteq> []" shows "\<not> isWhiteSpace (last (trim s))"
proof -
  let ?u = "dropWhile isWhiteSpace (rev (dropWhile isWhiteSpace s))"
  have u: "?u \<noteq> []" using assms by (simp add: trim_def)
  then have "\<not> isWhiteSpace (hd ?u)" by (rule hd_dropWhile)
  moreover have "last (trim s) = hd ?u"
    using u by (simp add: trim_def last_rev)
  ultimately show ?thesis by simp
qed

lemma trim_fixed:
  assumes "s \<noteq> []" "\<not> isWhiteSpace (hd s)" "\<not> isWhiteSpace (last s)"
  shows "trim s = s"
proof -
  have 1: "dropWhile isWhiteSpace s = s"
    using assms(1,2) by (cases s) auto
  have "rev s \<noteq> []" "\<not> isWhiteSpace (hd (rev s))"
    using assms(1,3) by (simp_all add: hd_rev)
  then have 2: "dropWhile isWhiteSpace (rev s) = rev s"
    by (cases "rev s") auto
  show ?thesis by (simp add: trim_def 1 2)
qed

lemma trim_trim: "trim (trim s) = trim s"
proof (cases "trim s = []")
  case True
  have "trim [] = []" by (simp add: trim_def)
  then show ?thesis unfolding True .
next
  case False
  then show ?thesis by (intro trim_fixed trim_hd trim_last)
qed


lemma split_re_not_Nil: "split_re sep s \<noteq> []"
  by (induction s) (auto split: list.splits)

lemma split_re_ws_tokens:
  assumes "s \<noteq> []" "\<not> isWhiteSpace (last s)"
  shows "split_re isWhiteSpace s = (if isWhiteSpace (hd s) then [[]] else []) @ ws_tokens s"
  using assms
proof (induction s)
  case Nil
  then show ?case by simp
next
  case (Cons c cs)
  show ?case
  proof (cases "cs = []")
    case True
    with Cons.prems show ?thesis by simp
  next
    case False
    with Cons.prems have "\<not> isWhiteSpace (last cs)" by simp
    with False have IH: "split_re isWhiteSpace cs = (if isWhiteSpace (hd cs) then [[]] else []) @ ws_tokens cs"
      by (rule Cons.IH)
    show ?thesis using IH False by (simp split: list.splits)
  qed
qed

text \<open>
  After the first replacement the only white space left is the space, so the second one
  finds no line feed and changes nothing.
\<close>

lemma collapse_ws_no_white_space_but_space:
  "c \<in> set (collapse_ws s) \<Longrightarrow> isWhiteSpace c \<Longrightarrow> c = CHR '' ''"
  by (induction s) (auto split: if_splits)

lemma blank_lines_without_line_feed: "CHR 0x0A \<notin> set s \<Longrightarrow> blank_lines s = s"
  by (induction s) auto

lemma cleanContent_collapse: "cleanContent s = trim (collapse_ws s)"
proof -
  have "isWhiteSpace (CHR 0x0A)" by (simp add: isWhiteSpace_def)
  then have "CHR 0x0A \<notin> set (collapse_ws s)"
    using collapse_ws_no_white_space_but_space [of "CHR 0x0A" s] by auto
  then show ?thesis by (simp add: cleanContent_def blank_lines_without_line_feed)
qed

section \<open>Facts about array indices\<close>

lemma digitValue_range: "isDigit c \<Longrightarrow> 0 \<le> digitValue c \<and> digitValue c \<le> 9"
  by (auto simp: isDigit_def digitValue_def)

lemma digitValue_zero: "isDigit c \<Longrightarrow> digitValue c = 0 \<Longrightarrow> c = CHR ''0''"
  by (auto simp: isDigit_def digitValue_def)

lemma digitValue_inj: "isDigit c \<Longrightarrow> isDigit d \<Longrightarrow> digitValue c = digitValue d \<Longrightarrow> c = d"
  by (auto simp: isDigit_def digitValue_def)

lemma parseDecimal_snoc: "parseDecimal (s @ [c]) = 10 * parseDecimal s + digitValue c"
  by (simp add: parseDecimal_def)

lemma parseDecimal_bounds:
  "list_all isDigit s \<Longrightarrow> 0 \<le> parseDecimal s \<and> parseDecimal s < 10 ^ length s"
proof (induction s rule: rev_induct)
  case Nil
  show ?case by (simp add: parseDecimal_def)
next
  case (snoc c s)
  then have IH: "0 \<le> parseDecimal s" "parseDecimal s < 10 ^ length s" and c: "isDigit c"
    by simp_all
  from IH(2) have "parseDecimal s + 1 \<le> 10 ^ length s" by simp
  then have "10 * (parseDecimal s + 1) \<le> 10 * 10 ^ length s" by (rule mult_left_mono) simp
  with IH(1) digitValue_range [OF c] show ?case
    by (simp add: parseDecimal_snoc)
qed

lemma parseDecimal_lower:
  "s \<noteq> [] \<Longrightarrow> list_all isDigit s \<Longrightarrow> hd s \<noteq> CHR ''0'' \<Longrightarrow> 10 ^ (length s - 1) \<le> parseDecimal s"
proof (induction s rule: rev_induct)
  case Nil
  then show ?case by simp
next
  case (snoc c s)
  then have c: "isDigit c" by simp
  show ?case
  proof (cases "s = []")
    case True
    with snoc.prems have "c \<noteq> CHR ''0''" by simp
    with digitValue_zero [OF c] digitValue_range [OF c] have "1 \<le> digitValue c" by force
    with True show ?thesis by (simp add: parseDecimal_def)
  next
    case False
    with snoc have "10 ^ (length s - 1) \<le> parseDecimal s" by simp
    then have "10 * 10 ^ (length s - 1) \<le> 10 * parseDecimal s" by simp
    moreover have "10 * 10 ^ (length s - 1) = (10::int) ^ length s"
      using False by (cases s) simp_all
    ultimately show ?thesis using digitValue_range [OF c] by (simp add: parseDecimal_snoc)
  qed
qed

lemma parseDecimal_inj_length:
  "length a = length b \<Longrightarrow> list_all isDigit a \<Longrightarrow> list_all isDigit b \<Longrightarrow>
   parseDecimal a = parseDecimal b \<Longrightarrow> a = b"
proof (induction a arbitrary: b rule: rev_induct)
  case Nil
  then show ?case by simp
next
  case (snoc c a)
  then obtain d b' where b: "b = b' @ [d]"
    by (cases b rule: rev_cases) auto
  with snoc.prems have len: "length a = length b'" and da: "list_all isDigit a" "isDigit c"
    and db: "list_all isDigit b'" "isDigit d"
    and eq: "10 * parseDecimal a + digitValue c = 10 * parseDecimal b' + digitValue d"
    by (simp_all add: parseDecimal_snoc)
  from eq digitValue_range [OF da(2)] digitValue_range [OF db(2)]
  have "parseDecimal a = parseDecimal b'" "digitValue c = digitValue d" by presburger+
  with snoc.IH [OF len da(1) db(1)] digitValue_inj [OF da(2) db(2)] b show ?case by simp
qed

lemma isArrayIndex_inj:
  assumes "isArrayIndex a" "isArrayIndex b" "parseDecimal a = parseDecimal b"
  shows "a = b"
proof -
  have da: "a \<noteq> []" "list_all isDigit a" and db: "b \<noteq> []" "list_all isDigit b"
    using assms(1,2) by (simp_all add: isArrayIndex_def)
  have zero: "s = ''0''" if "isArrayIndex s" "parseDecimal s = 0" for s
  proof (rule ccontr)
    assume "s \<noteq> ''0''"
    with that(1) have "s \<noteq> []" "list_all isDigit s" "hd s \<noteq> CHR ''0''"
      by (auto simp: isArrayIndex_def)
    then have "10 ^ (length s - 1) \<le> parseDecimal s" by (rule parseDecimal_lower)
    moreover have "0 < (10::int) ^ (length s - 1)" by simp
    ultimately show False using that(2) by linarith
  qed
  show ?thesis
  proof (cases "parseDecimal a = 0")
    case True
    with zero [OF assms(1)] zero [OF assms(2)] assms(3) show ?thesis by simp
  next
    case False
    then have "a \<noteq> ''0''" "b \<noteq> ''0''" using assms(3) by (auto simp: parseDecimal_def digitValue_def)
    with assms(1,2) have ha: "hd a \<noteq> CHR ''0''" and hb: "hd b \<noteq> CHR ''0''"
      by (auto simp: isArrayIndex_def)
    have la: "10 ^ (length a - 1) \<le> parseDecimal a" "parseDecimal a < 10 ^ length a"
      using parseDecimal_lower [OF da ha] parseDecimal_bounds [OF da(2)] by simp_all
    have lb: "10 ^ (length b - 1) \<le> parseDecimal b" "parseDecimal b < 10 ^ length b"
      using parseDecimal_lower [OF db hb] parseDecimal_bounds [OF db(2)] by simp_all
    have "length a = length b"
    proof (rule ccontr)
      assume ne: "length a \<noteq> length b"
      have less: False if "length x < length y" "10 ^ (length y - 1) \<le> v" "v < 10 ^ length x"
        for x y :: string and v :: int
      proof -
        from that(1) have "length x \<le> length y - 1" by simp
        then have "(10::int) ^ length x \<le> 10 ^ (length y - 1)"
          by (rule power_increasing) simp
        with that(2,3) show False by linarith
      qed
      from ne consider "length a < length b" | "length b < length a" by linarith
      then show False
      proof cases
        case 1
        from less [OF 1 lb(1)] la(2) assms(3) show False by simp
      next
        case 2
        from less [OF 2 la(1)] lb(2) assms(3) show False by simp
      qed
    qed
    then show ?thesis using da(2) db(2) assms(3) by (rule parseDecimal_inj_length)
  qed
qed

section \<open>Facts about the frequency table\<close>

lemma first_seen_set: "set (first_seen xs) = set xs"
  by (induction xs) auto

lemma first_seen_snoc:
  "first_seen (xs @ [x]) = (if x \<in> set xs then first_seen xs else first_seen xs @ [x])"
  by (induction xs) auto

lemma count_list_snoc: "count_list (xs @ [x]) y = count_list xs y + (if x = y then 1 else 0)"
  by (induction xs) auto

lemma map_of_counts:
  "map_of (map (\<lambda>k. (k, f k)) ks) k = (if k \<in> set ks then Some (f k) else None)"
  by (induction ks) auto

lemma wordFreq_snoc:
  "wordFreq (ms @ [w]) = obj_set (wordFreq ms) w (plus_one (obj_get (wordFreq ms) w))"
  by (simp add: wordFreq_def)

lemma insert_index_insort:
  assumes "\<forall>k \<in> set ixs. isArrayIndex k" "\<forall>k \<in> set others. \<not> isArrayIndex k"
    and "k \<notin> set ixs"
  shows "insert_index k (f k) (map (\<lambda>w. (w, f w)) (ixs @ others)) =
         map (\<lambda>w. (w, f w)) (insort_key parseDecimal k ixs @ others)"
  using assms
proof (induction ixs)
  case Nil
  then show ?case by (cases others) auto
next
  case (Cons x ixs)
  then show ?case by auto
qed

lemma sort_key_snoc:
  assumes "\<forall>x \<in> set xs. f x \<noteq> f y"
  shows "sort_key f (xs @ [y]) = insort_key f y (sort_key f xs)"
  using assms
proof (induction xs)
  case Nil
  show ?case by simp
next
  case (Cons x xs)
  then have "sort_key f ((x # xs) @ [y]) = insort_key f x (insort_key f y (sort_key f xs))"
    by simp
  also have "\<dots> = insort_key f y (insort_key f x (sort_key f xs))"
    using Cons.prems by (intro insort_key_left_comm) auto
  finally show ?case by simp
qed

lemma set_property_order: "set (property_order ms) = set ms"
  by (auto simp: property_order_def first_seen_set)

lemma property_order_snoc:
  "property_order (ms @ [w]) =
     (if w \<in> set ms then property_order ms
      else if isArrayIndex w
      then insort_key parseDecimal w (sort_key parseDecimal (first_seen (filter isArrayIndex ms))) @
           first_seen (filter (\<lambda>w. \<not> isArrayIndex w) ms)
      else property_order ms @ [w])"
proof -
  have "sort_key parseDecimal (first_seen (filter isArrayIndex ms) @ [w]) =
        insort_key parseDecimal w (sort_key parseDecimal (first_seen (filter isArrayIndex ms)))"
    if "isArrayIndex w" "w \<notin> set ms"
  proof (rule sort_key_snoc)
    show "\<forall>x \<in> set (first_seen (filter isArrayIndex ms)). parseDecimal x \<noteq> parseDecimal w"
      using that isArrayIndex_inj [OF _ that(1)] by (auto simp: first_seen_set)
  qed
  then show ?thesis
    by (auto simp: property_order_def first_seen_snoc)
qed

lemma wordFreq_property_order:
  assumes "\<forall>w \<in> set ms. \<not> inherited w"
  shows "wordFreq ms = map (\<lambda>w. (w, Num (count_list ms w))) (property_order ms)"
  using assms
proof (induction ms rule: rev_induct)
  case Nil
  show ?case by (simp add: wordFreq_def property_order_def)
next
  case (snoc w ms)
  let ?g = "\<lambda>v. (v, Num (count_list ms v))"
  let ?g' = "\<lambda>v. (v, Num (count_list (ms @ [w]) v))"
  let ?E = "map ?g (property_order ms)"
  have IH: "wordFreq ms = ?E" using snoc by simp
  have w: "w \<noteq> ''__proto__''" "w \<notin> set inheritedFunctions"
    using snoc.prems by (auto simp: inherited_def)
  have keys: "fst ` ?g ` set (property_order ms) = set ms"
    by (force simp: set_property_order)
  show ?case
  proof (cases "w \<in> set ms")
    case True
    have get: "obj_get ?E w = Own (Num (count_list ms w))"
      by (simp add: obj_get_def map_of_counts set_property_order True)
    have "obj_set ?E w (Num (count_list ms w + 1)) = map ?g' (property_order ms)"
      using w True by (auto simp: obj_set_def keys count_list_snoc)
    then show ?thesis
      by (simp add: wordFreq_snoc IH get property_order_snoc True)
  next
    case False
    have get: "obj_get ?E w = Undefined"
      using w by (simp add: obj_get_def map_of_counts set_property_order False)
    have cnt: "count_list ms w = 0" using False by (simp add: count_list_0_iff)
    have same: "map ?g' xs = map ?g xs" if "set xs \<subseteq> set ms" for xs
      using that False by (auto simp: count_list_snoc)
    show ?thesis
    proof (cases "isArrayIndex w")
      case ix: True
      let ?ixs = "sort_key parseDecimal (first_seen (filter isArrayIndex ms))"
      let ?others = "first_seen (filter (\<lambda>w. \<not> isArrayIndex w) ms)"
      have E: "?E = map ?g (?ixs @ ?others)" by (simp add: property_order_def)
      have p1: "\<forall>k \<in> set ?ixs. isArrayIndex k" by (simp add: first_seen_set)
      have p2: "\<forall>k \<in> set ?others. \<not> isArrayIndex k" by (simp add: first_seen_set)
      have p3: "w \<notin> set ?ixs" using False by (simp add: first_seen_set)
      have one: "Num (count_list (ms @ [w]) w) = Num 1" by (simp add: cnt)
      have "insert_index w (Num (count_list (ms @ [w]) w)) (map ?g' (?ixs @ ?others)) =
            map ?g' (insort_key parseDecimal w ?ixs @ ?others)"
        by (rule insert_index_insort [OF p1 p2 p3, of "\<lambda>v. Num (count_list (ms @ [w]) v)"])
      then have "insert_index w (Num 1) (map ?g' (?ixs @ ?others)) =
            map ?g' (insort_key parseDecimal w ?ixs @ ?others)"
        by (simp only: one)
      moreover have "map ?g' (?ixs @ ?others) = ?E"
        unfolding E by (rule same) (auto simp: first_seen_set)
      ultimately have "obj_set ?E w (Num 1) = map ?g' (insort_key parseDecimal w ?ixs @ ?others)"
        using w False ix by (simp add: obj_set_def keys)
      then show ?thesis
        by (simp add: wordFreq_snoc IH get property_order_snoc False ix)
    next
      case nix: False
      have "obj_set ?E w (Num 1) = ?E @ [(w, Num 1)]"
        using w False nix by (simp add: obj_set_def keys)
      moreover have "map ?g' (property_order ms) = ?E"
        by (rule same) (simp add: set_property_order)
      ultimately show ?thesis
        by (simp add: wordFreq_snoc IH get property_order_snoc False nix count_list_snoc cnt)
    qed
  qed
qed

lemma property_order_no_index:
  assumes "\<forall>w \<in> set ms. \<not> isArrayIndex w"
  shows "property_order ms = first_seen ms"
proof -
  have "filter isArrayIndex ms = []" using assms by (simp add: filter_empty_conv)
  moreover have "filter (\<lambda>w. \<not> isArrayIndex w) ms = ms" using assms by (simp add: filter_id_conv)
  ultimately show ?thesis by (simp add: property_order_def)
qed

lemma insert_by_insort:
  "insert_by compareEntries (w, Num (f w)) (map (\<lambda>v. (v, Num (f v))) ys) =
   map (\<lambda>v. (v, Num (f v))) (insort_key (\<lambda>v. - int (f v)) w ys)"
  by (induction ys) auto

lemma sort_by_sort_key:
  "sort_by compareEntries (map (\<lambda>v. (v, Num (f v))) xs) =
   map (\<lambda>v. (v, Num (f v))) (sort_key (\<lambda>v. - int (f v)) xs)"
proof (induction xs)
  case Nil
  show ?case by (simp add: sort_by_def)
next
  case (Cons x xs)
  have "sort_by compareEntries (map (\<lambda>v. (v, Num (f v))) (x # xs)) =
        insert_by compareEntries (x, Num (f x)) (sort_by compareEntries (map (\<lambda>v. (v, Num (f v))) xs))"
    by (simp add: sort_by_def)
  then show ?case
    by (simp add: Cons.IH insert_by_insort sort_key_def)
qed

lemma meaningfulWords_filter:
  "meaningfulWords ws = filter (\<lambda>w. w \<notin> set stopWords \<and> \<not> length w \<le> 4) ws"
  unfolding meaningfulWords_def by (rule filter_cong) auto


lemma wordCount_tokens:
  assumes "trim s \<noteq> []"
  shows "length (split_re isWhiteSpace (trim (trim s))) = length (ws_tokens (trim s))"
  using split_re_ws_tokens [OF assms trim_last [OF assms]] trim_hd [OF assms]
  by (simp add: trim_trim)

section \<open>Projections of the generated script\<close>

lemma some_includes_iff: "some_includes ws kws \<longleftrightarrow> (\<exists>w \<in> set ws. w \<in> set kws)"
  by (simp add: some_includes_def list_ex_iff)

lemma category_generateFallbackScript:
  "category (episodeDetails (showNotes (generateFallbackScript options))) =
     inferCategory (words (content options))"
  by (simp add: generateFallbackScript_def Let_def)

lemma keyTopics_generateFallbackScript:
  "keyTopics (showNotes (generateFallbackScript options)) =
     (if length (keyTopics_of (words (content options))) > 0
      then keyTopics_of (words (content options))
      else [''Analysis'', ''Discussion'', ''Insights''])"
  by (simp add: generateFallbackScript_def Let_def)

lemma timestamps_generateFallbackScript:
  "timestamps (showNotes (generateFallbackScript options)) = timestamps_of (duration options)"
  by (simp add: generateFallbackScript_def Let_def)

lemma intro_generateFallbackScript:
  "intro (generateFallbackScript options) =
     intro_of (case showName options of None \<Rightarrow> ''The Show'' | Some s \<Rightarrow> s)
       (firstSentence (sentences (content options))) (format_transitionPhrase (style options))"
  by (simp add: generateFallbackScript_def Let_def)

lemma outro_generateFallbackScript:
  "outro (generateFallbackScript options) =
     outro_of (case showName options of None \<Rightarrow> ''The Show'' | Some s \<Rightarrow> s)
       (keyTopics_of (words (content options)))"
  by (simp add: generateFallbackScript_def Let_def)

lemma keyTopics_of_length: "length (keyTopics_of ws) \<le> 5"
  by (simp add: keyTopics_of_def)

section \<open>Category inference\<close>

text \<open>
  The five tests run one after the other and each match overwrites the category, so of
  two matching keyword sets the one tested later wins. With \<open>tech\<close> and \<open>business\<close>
  in the content, the category is not that of the set tested first.
\<close>

theorem category_first_match_counterexample:
  "some_includes (words ''tech business'') technologyKeywords \<and>
   some_includes (words ''tech business'') businessKeywords \<and>
   category (episodeDetails (showNotes (generateFallbackScript
     (exampleOptions\<lparr>content := ''tech business''\<rparr>)))) = ''Business'' \<and>
   category (episodeDetails (showNotes (generateFallbackScript
     (exampleOptions\<lparr>content := ''tech business''\<rparr>)))) \<noteq> ''Technology''"
  unfolding category_generateFallbackScript by code_simp

text \<open>
  Claim C1, amended. The keywords are compared with the whole tokens of the lower-cased
  content. The category is that of the last keyword set, in the order Technology,
  Business, Health, Education, Science, that holds a token of the content: Science before
  Education before Health before Business before Technology. Content with a token from
  one set only gets the category of that set, and content without any such token gets
  \<open>General\<close>.
\<close>

theorem category_last_match_wins:
  fixes options :: "'a PodcastScriptOptions_scheme"
  defines "ws \<equiv> words (content options)"
  shows "category (episodeDetails (showNotes (generateFallbackScript options))) =
     (if \<exists>w \<in> set ws. w \<in> set scienceKeywords then ''Science''
      else if \<exists>w \<in> set ws. w \<in> set educationKeywords then ''Education''
      else if \<exists>w \<in> set ws. w \<in> set healthKeywords then ''Health''
      else if \<exists>w \<in> set ws. w \<in> set businessKeywords then ''Business''
      else if \<exists>w \<in> set ws. w \<in> set technologyKeywords then ''Technology''
      else ''General'')"
  unfolding category_generateFallbackScript ws_def inferCategory_def Let_def some_includes_iff
  by simp

theorem category_last_match_wins_witness:
  "(\<exists>w \<in> set (words ''Health tech for every company''). w \<in> set technologyKeywords) \<and>
   (\<exists>w \<in> set (words ''Health tech for every company''). w \<in> set businessKeywords) \<and>
   (\<exists>w \<in> set (words ''Health tech for every company''). w \<in> set healthKeywords) \<and>
   category (episodeDetails (showNotes (generateFallbackScript
     (exampleOptions\<lparr>content := ''Health tech for every company''\<rparr>)))) = ''Health''"
proof -
  let ?ws = "words ''Health tech for every company''"
  have t: "\<exists>w \<in> set ?ws. w \<in> set technologyKeywords" by code_simp
  have b: "\<exists>w \<in> set ?ws. w \<in> set businessKeywords" by code_simp
  have h: "\<exists>w \<in> set ?ws. w \<in> set healthKeywords" by code_simp
  have e: "\<not> (\<exists>w \<in> set ?ws. w \<in> set educationKeywords)" by code_simp
  have s: "\<not> (\<exists>w \<in> set ?ws. w \<in> set scienceKeywords)" by code_simp
  have "content (exampleOptions\<lparr>content := ''Health tech for every company''\<rparr>) =
        ''Health tech for every company''" by simp
  with category_last_match_wins [of "exampleOptions\<lparr>content := ''Health tech for every company''\<rparr>"]
    t b h e s
  show ?thesis by (simp only: if_True if_False simp_thms)
qed

section \<open>Key topics in the show notes\<close>

text \<open>
  The placeholders replace the extracted topics only when there are none. Content with
  two tokens that qualify yields a list of two topics.
\<close>

theorem keyTopics_padding_counterexample:
  "keyTopics (showNotes (generateFallbackScript exampleOptions)) = [''Welcome'', ''Everyone''] \<and>
   \<not> 3 \<le> length (keyTopics (showNotes (generateFallbackScript exampleOptions)))"
  unfolding keyTopics_generateFallbackScript by code_simp

text \<open>
  Claim C2, amended. The key-topic list of the show notes has between 1 and 5 entries.
  When the extraction yields no topic, the list is the three placeholders \<open>Analysis\<close>,
  \<open>Discussion\<close>, \<open>Insights\<close>; otherwise it is the list of extracted topics, unchanged
  and without placeholders.
\<close>

theorem keyTopics_length:
  fixes options :: "'a PodcastScriptOptions_scheme"
  defines "extracted \<equiv> keyTopics_of (words (content options))"
  defines "topics \<equiv> keyTopics (showNotes (generateFallbackScript options))"
  shows "1 \<le> length topics \<and> length topics \<le> 5 \<and>
         (extracted = [] \<longrightarrow> topics = [''Analysis'', ''Discussion'', ''Insights'']) \<and>
         (extracted \<noteq> [] \<longrightarrow> topics = extracted)"
  using keyTopics_of_length [of "words (content options)"]
  unfolding topics_def extracted_def keyTopics_generateFallbackScript
  by (cases "keyTopics_of (words (content options))") auto

theorem keyTopics_length_witness:
  "keyTopics_of (words (content exampleOptions)) \<noteq> [] \<and>
   keyTopics (showNotes (generateFallbackScript exampleOptions)) =
     keyTopics_of (words (content exampleOptions)) \<and>
   keyTopics_of (words (content (exampleOptions\<lparr>content := ''to be or not to be''\<rparr>))) = [] \<and>
   keyTopics (showNotes (generateFallbackScript (exampleOptions\<lparr>content := ''to be or not to be''\<rparr>))) =
     [''Analysis'', ''Discussion'', ''Insights'']"
proof -
  have 1: "keyTopics_of (words (content exampleOptions)) \<noteq> []" by code_simp
  have 2: "keyTopics_of (words (content (exampleOptions\<lparr>content := ''to be or not to be''\<rparr>))) = []"
    by code_simp
  show ?thesis
    using keyTopics_length [of exampleOptions]
      keyTopics_length [of "exampleOptions\<lparr>content := ''to be or not to be''\<rparr>"] 1 2
    by blast
qed

section \<open>Key-topic extraction\<close>

text \<open>
  The frequency table is an object, and an object lists the keys that are array indices
  first, in numeric order. Two numerals of five digits, once each, come out in numeric
  order and not in the order of their first occurrence.
\<close>

theorem keyTopics_tie_break_counterexample:
  "keyTopics_of (words ''20000 10000'') = [''10000'', ''20000''] \<and>
   keyTopics_spec (words ''20000 10000'') = [''20000'', ''10000''] \<and>
   keyTopics (showNotes (generateFallbackScript (exampleOptions\<lparr>content := ''20000 10000''\<rparr>))) =
     [''10000'', ''20000'']"
  unfolding keyTopics_generateFallbackScript by code_simp

text \<open>
  The tokens \<open>__proto__\<close> and \<open>constructor\<close> meet the properties that the table
  inherits: the first never becomes a key, the second is counted by string concatenation.
\<close>

lemma keyTopics_inherited_names:
  "keyTopics_of (words ''__proto__ banana'') = [''Banana'']"
  "keyTopics_spec (words ''__proto__ banana'') = [''__proto__'', ''Banana'']"
  "wordFreq (meaningfulWords (words ''constructor banana constructor'')) =
     [(''constructor'', Str ''function Object() { [native code] }11''), (''banana'', Num 1)]"
  by code_simp+

text \<open>
  Claim C5, amended. For content none of whose retained tokens is the name of an inherited
  property: the lower-cased content is cut at white space, the tokens of the stop-word set
  and those of length 4 or less are dropped, and the others are ranked by descending
  frequency. Equal frequencies stay in the order in which the frequency object lists its
  keys: first the tokens that are array indices, by ascending number, then the other
  tokens by first occurrence. The first five are taken and the first letter of each is
  capitalized.
\<close>

theorem keyTopics_refines_property_order:
  assumes "\<forall>w \<in> set (meaningfulWords (words c)). \<not> inherited w"
  shows "keyTopics_of (words c) = keyTopics_by_property_order (words c)"
proof -
  let ?ms = "meaningfulWords (words c)"
  have "keyTopics_of (words c) =
        map (\<lambda>(word, _). capitalize word)
          (take 5 (map (\<lambda>v. (v, Num (count_list ?ms v)))
             (sort_key (\<lambda>v. - int (count_list ?ms v)) (property_order ?ms))))"
    by (simp only: keyTopics_of_def wordFreq_property_order [OF assms] sort_by_sort_key)
  also have "\<dots> =
        map capitalize (take 5 (sort_key (\<lambda>v. - int (count_list ?ms v)) (property_order ?ms)))"
    by (simp add: take_map)
  also have "\<dots> = keyTopics_by_property_order (words c)"
    by (simp add: keyTopics_by_property_order_def Let_def meaningfulWords_filter)
  finally show ?thesis .
qed

theorem keyTopics_refines_property_order_witness:
  "list_all (\<lambda>w. \<not> inherited w) (meaningfulWords (words ''50000 Banana 10000 banana apple'')) \<and>
   keyTopics_of (words ''50000 Banana 10000 banana apple'') =
     keyTopics_by_property_order (words ''50000 Banana 10000 banana apple'') \<and>
   keyTopics_of (words ''50000 Banana 10000 banana apple'') =
     [''Banana'', ''10000'', ''50000'', ''Apple'']"
proof -
  have h: "list_all (\<lambda>w. \<not> inherited w)
             (meaningfulWords (words ''50000 Banana 10000 banana apple''))"
    by code_simp
  then have h': "\<forall>w \<in> set (meaningfulWords (words ''50000 Banana 10000 banana apple'')).
      \<not> inherited w"
    by (simp only: list_all_iff)
  have "keyTopics_by_property_order (words ''50000 Banana 10000 banana apple'') =
          [''Banana'', ''10000'', ''50000'', ''Apple'']"
    by code_simp
  with keyTopics_refines_property_order [OF h'] h show ?thesis by simp
qed

text \<open>
  For content without a retained token that is an array index, the order of the keys is
  the order of first occurrence, and the extraction is as the specification words it.
\<close>

lemma keyTopics_refines_spec:
  assumes "\<forall>w \<in> set (meaningfulWords (words c)). \<not> isArrayIndex w \<and> \<not> inherited w"
  shows "keyTopics_of (words c) = keyTopics_spec (words c)"
proof -
  have "\<forall>w \<in> set (filter (\<lambda>w. w \<notin> set stopWords \<and> \<not> length w \<le> 4) (words c)).
          \<not> isArrayIndex w"
    using assms by (simp add: meaningfulWords_filter)
  then have "keyTopics_by_property_order (words c) = keyTopics_spec (words c)"
    by (simp add: keyTopics_by_property_order_def keyTopics_spec_def Let_def
          property_order_no_index)
  moreover have "keyTopics_of (words c) = keyTopics_by_property_order (words c)"
  proof -
    let ?ms = "meaningfulWords (words c)"
    have nin: "\<forall>w \<in> set ?ms. \<not> inherited w" using assms by simp
    have "keyTopics_of (words c) =
          map (\<lambda>(word, _). capitalize word)
            (take 5 (map (\<lambda>v. (v, Num (count_list ?ms v)))
               (sort_key (\<lambda>v. - int (count_list ?ms v)) (property_order ?ms))))"
      by (simp only: keyTopics_of_def wordFreq_property_order [OF nin] sort_by_sort_key)
    then show ?thesis
      by (simp add: take_map keyTopics_by_property_order_def Let_def meaningfulWords_filter)
  qed
  ultimately show ?thesis by simp
qed

section \<open>Timestamps\<close>







lemma targetDurations_not_inherited: "d \<in> set targetDurations \<Longrightarrow> \<not> inherited d"
  by (auto simp: targetDurations_def inherited_def inheritedFunctions_def)



text \<open>
  The labels of the bucket \<open>5-10\<close> have the minute values 0, 1, 1, 4, 6, 6; read as
  times, \<open>1:30\<close> stands in front of \<open>1:00\<close>. A duration that names an inherited
  property cannot come from the route, which admits the four buckets only; the function by
  itself would not fall back to 15 minutes for it, and four of its labels would read
  \<open>NaN:00\<close>.
\<close>

lemma timestamps_5_10_and_inherited_name:
  "map time (timestamps (showNotes (generateFallbackScript
     (exampleOptions\<lparr>duration := ''5-10''\<rparr>)))) =
     [''0:00'', ''1:30'', ''1:00'', ''4:00'', ''6:00'', ''6:00'']"
  "estimatedDuration ''constructor'' = None"
  "map time (timestamps (showNotes (generateFallbackScript
     (exampleOptions\<lparr>duration := ''constructor''\<rparr>)))) =
     [''0:00'', ''1:30'', ''NaN:00'', ''NaN:00'', ''NaN:00'', ''NaN:00'']"
  unfolding timestamps_generateFallbackScript by code_simp+

section \<open>The facade\<close>

text \<open>
  The facade of the file with the synthesizer never rejects, and when the call of the
  model, the empty-response check or the parser throws, it returns the script of the
  synthesizer for the same options.
\<close>

lemma generatePodcastScript_total:
  "\<exists>script. generatePodcastScript ai parse options = Inr script"
  by (simp add: generatePodcastScript_def split: sum.split)

lemma generatePodcastScript_fallback:
  assumes "tryGenerate ai parse options = Inl e"
  shows "generatePodcastScript ai parse options = Inr (generateFallbackScript options)"
  using assms by (simp add: generatePodcastScript_def)

lemma tryGenerate_ai_throws:
  assumes "ai \<lparr>model = ''gemini-2.5-pro'', systemInstruction = systemPrompt options,
                contents = content options\<rparr> = Inl e"
  shows "tryGenerate ai parse options = Inl e"
  using assms by (simp add: tryGenerate_def)

text \<open>
  Claim C4. \<open>generatePodcastScript\<close> of \<open>server/services/gemini.ts\<close> has no fallback:
  when the call of the model throws, the facade rejects with a new error that carries the
  message of the first.
\<close>

theorem generatePodcastScript_services_propagates:
  "generatePodcastScript_services (\<lambda>request. Inl (Error ''fetch failed''))
     (\<lambda>raw. Inl (Error ''Unexpected end of JSON input'')) exampleOptions =
   Inl (Error ''Failed to generate podcast script: fetch failed'')"
  by (simp add: generatePodcastScript_services_def tryGenerate_def message_of_def)

section \<open>Resources\<close>

text \<open>
  Claim C10. The resources of the show notes are the same three strings for every input.
\<close>

theorem resources_fixed:
  "resources (showNotes (generateFallbackScript options)) =
     [''Episode transcript available on our website'',
      ''Follow us on social media for updates'',
      ''Submit topic suggestions via our contact form'']"
  by (simp add: generateFallbackScript_def Let_def)

section \<open>The content extractor\<close>

text \<open>
  Claim C7. For a page that was fetched with success, let \<open>c\<close> be the selected content
  after the white-space clean-up and trimming. If \<open>c\<close> has fewer than 50 characters, the
  extractor fails with the error of the extraction (wrapped by the \<open>catch\<close> block) and
  returns no content. Otherwise it returns the title, \<open>c\<close>, and as word count the number
  of tokens of \<open>c\<close> that white space delimits.
\<close>

theorem extraction_threshold:
  fixes fetch :: "string \<Rightarrow> error + Response" and load :: "string \<Rightarrow> Document"
  assumes "fetch url = Inr response" and "ok response" and "text_body response = Inr html"
  defines "d \<equiv> load html"
  defines "c \<equiv> cleanContent (selectContent d)"
  shows "(length c < 50 \<longrightarrow>
            fetchContentFromUrl fetch load url =
              Inl (Error ''Failed to fetch content from URL: Could not extract meaningful content from the URL'')) \<and>
         (50 \<le> length c \<longrightarrow>
            fetchContentFromUrl fetch load url =
              Inr \<lparr>title = trim (extractTitle d), content_fc = c,
                   wordCount = length (ws_tokens c)\<rparr>)"
proof (intro conjI impI)
  assume "length c < 50"
  then show "fetchContentFromUrl fetch load url =
      Inl (Error ''Failed to fetch content from URL: Could not extract meaningful content from the URL'')"
    using assms(1,2,3) unfolding c_def d_def
    by (simp add: fetchContentFromUrl_def extractContent_def Let_def message_of_def)
next
  assume len: "50 \<le> length c"
  have c: "c = trim (blank_lines (collapse_ws (selectContent d)))"
    by (simp add: c_def cleanContent_def)
  have "c \<noteq> []" using len by auto
  then have "length (split_re isWhiteSpace (trim c)) = length (ws_tokens c)"
    unfolding c by (rule wordCount_tokens)
  then show "fetchContentFromUrl fetch load url =
      Inr \<lparr>title = trim (extractTitle d), content_fc = c, wordCount = length (ws_tokens c)\<rparr>"
    using assms(1,2,3) len unfolding c_def d_def
    by (simp add: fetchContentFromUrl_def extractContent_def Let_def)
qed

theorem extraction_threshold_witness:
  "fetchContentFromUrl (\<lambda>url. Inr okResponse) (\<lambda>html. shortPage) ''https://example.org/a'' =
     Inl (Error ''Failed to fetch content from URL: Could not extract meaningful content from the URL'') \<and>
   fetchContentFromUrl (\<lambda>url. Inr okResponse) (\<lambda>html. examplePage) ''https://example.org/a'' =
     Inr \<lparr>title = ''Example'',
          content_fc = ''The quick brown fox jumps over the lazy dog near the river bank today.'',
          wordCount = 14\<rparr>"
proof -
  have ok: "ok okResponse" by (simp add: okResponse_def)
  have body: "text_body okResponse = Inr ''<html></html>''" by (simp add: okResponse_def)
  have short: "length (cleanContent (selectContent shortPage)) < 50" by code_simp
  have long: "50 \<le> length (cleanContent (selectContent examplePage))" by code_simp
  have result: "\<lparr>title = trim (extractTitle examplePage),
                content_fc = cleanContent (selectContent examplePage),
                wordCount = length (ws_tokens (cleanContent (selectContent examplePage)))\<rparr> =
              \<lparr>title = ''Example'',
                content_fc = ''The quick brown fox jumps over the lazy dog near the river bank today.'',
                wordCount = 14\<rparr>"
    by code_simp
  show ?thesis
    using extraction_threshold [of "\<lambda>url. Inr okResponse" "''https://example.org/a''" okResponse
                                    "''<html></html>''" "\<lambda>html. shortPage", OF refl ok body]
      extraction_threshold [of "\<lambda>url. Inr okResponse" "''https://example.org/a''" okResponse
                                    "''<html></html>''" "\<lambda>html. examplePage", OF refl ok body]
      short long result
    by simp
qed

text \<open>
  The title before trimming is never empty: it is the text of the title element, else that
  of the first level-1 heading, else the placeholder.
\<close>

lemma extractTitle_not_empty: "extractTitle d \<noteq> []"
  by (simp add: extractTitle_def or_else_def)

lemma extractTitle_chain:
  "extractTitle d =
     (if text_of d ''title'' \<noteq> [] then text_of d ''title''
      else if h1_first_text d \<noteq> [] then h1_first_text d
      else ''Untitled Article'')"
  by (simp add: extractTitle_def or_else_def)

text \<open>
  Claim C8. The title is trimmed after the choice between title element, heading and
  placeholder. A title element that holds one space is not empty, so it is chosen, and
  the title that is returned is the empty string.
\<close>

theorem blank_title_returned_empty:
  "fetchContentFromUrl (\<lambda>url. Inr okResponse) (\<lambda>html. blankTitlePage) ''https://example.org/a'' =
     Inr \<lparr>title = [],
          content_fc = ''The quick brown fox jumps over the lazy dog near the river bank today.'',
          wordCount = 14\<rparr>"
  by code_simp

section \<open>The show name\<close>

text \<open>
  An absent show name is replaced by \<open>The Show\<close>, and a show name that is present goes
  into intro and outro as it is. The prompt of the facade treats the empty show name as an
  absent one.
\<close>

lemma showName_absent:
  assumes "showName options = None"
  shows "intro (generateFallbackScript options) =
           intro_of ''The Show'' (firstSentence (sentences (content options)))
             (format_transitionPhrase (style options))"
    and "outro (generateFallbackScript options) =
           outro_of ''The Show'' (keyTopics_of (words (content options)))"
  using assms by (simp_all add: intro_generateFallbackScript outro_generateFallbackScript)

lemma showName_present:
  assumes "showName options = Some name"
  shows "intro (generateFallbackScript options) =
           intro_of name (firstSentence (sentences (content options)))
             (format_transitionPhrase (style options))"
    and "outro (generateFallbackScript options) =
           outro_of name (keyTopics_of (words (content options)))"
  using assms by (simp_all add: intro_generateFallbackScript outro_generateFallbackScript)

lemma systemPrompt_empty_showName:
  "systemPrompt (options\<lparr>showName := Some []\<rparr>) = systemPrompt (options\<lparr>showName := None\<rparr>)"
  by (simp add: systemPrompt_def or_else_def)

text \<open>
  Claim C9. The synthesizer does not replace the empty show name: the intro then greets
  with \<open>Welcome to !\<close>, where an absent show name gives \<open>Welcome to The Show!\<close>.
\<close>

theorem empty_showName_not_defaulted:
  "take 37 (intro (generateFallbackScript (exampleOptions\<lparr>showName := Some []\<rparr>))) =
     ''[INTRO MUSIC FADES IN]\<newline>\<newline>Welcome to ! ''  \<and>
   take 45 (intro (generateFallbackScript (exampleOptions\<lparr>showName := None\<rparr>))) =
     ''[INTRO MUSIC FADES IN]\<newline>\<newline>Welcome to The Show! ''"
  unfolding intro_generateFallbackScript by code_simp

end
